theory Spec2Isabelle
  imports Main "HOL-Library.Word"
begin

unbundle bit_operations_syntax

section \<open>JavaScript numbers, typed arrays and strings\<close>

text \<open>
  The numbers of the program that matter here are integer valued (millisecond time stamps,
  sequence counters, character codes): they are modelled as \<open>int\<close>. A bitwise operator of
  JavaScript first converts its operands with ToInt32, that is modulo \<open>2 ^ 32\<close>; the
  operands of such operators are \<open>32 word\<close>. A \<open>Uint8Array\<close> is a list of \<open>8 word\<close>; a
  store into it keeps the low eight bits, and a store outside its bounds is ignored, which
  is what \<open>xs[i := v]\<close> does.
\<close>

type_synonym bytes = "8 word list"
type_synonym int32 = "32 word"

definition toInt32 :: "int \<Rightarrow> int32" where
  "toInt32 x = word_of_int x"

definition toUint8 :: "int32 \<Rightarrow> 8 word" where
  "toUint8 w = ucast w"

definition byteToInt32 :: "8 word \<Rightarrow> int32" where
  "byteToInt32 b = ucast b"

text \<open>
  \<open>ts / Math.pow(256, k)\<close> followed by ToInt32: the quotient of an integer by a power of
  two is exact in floating point, and ToInt32 truncates it towards zero.
\<close>

definition truncQuot :: "int \<Rightarrow> int \<Rightarrow> int" where
  "truncQuot a b = (if a < 0 then - ((- a) div b) else a div b)"

text \<open>\<open>bytes[i]\<close> under a bitwise operator: \<open>undefined\<close> converts to 0.\<close>

definition byteOrZero :: "bytes \<Rightarrow> nat \<Rightarrow> int32" where
  "byteOrZero bs i = (if i < length bs then byteToInt32 (bs ! i) else 0)"

text \<open>
  \<open>str.charCodeAt(i)\<close>: the code of the character, \<open>NaN\<close> (here \<open>None\<close>) outside
  the string.
\<close>

definition charCodeAt :: "string \<Rightarrow> nat \<Rightarrow> int option" where
  "charCodeAt str i = (if i < length str then Some (of_char (str ! i)) else None)"

section \<open>sha256.ts\<close>

text \<open>The constants \<open>K\<close>, eight to a row.\<close>

definition K :: "int32 list" where
  "K =
     [0x428a2f98, 0x71374491, 0xb5c0fbcf, 0xe9b5dba5, 0x3956c25b, 0x59f111f1, 0x923f82a4, 0xab1c5ed5] @
     [0xd807aa98, 0x12835b01, 0x243185be, 0x550c7dc3, 0x72be5d74, 0x80deb1fe, 0x9bdc06a7, 0xc19bf174] @
     [0xe49b69c1, 0xefbe4786, 0x0fc19dc6, 0x240ca1cc, 0x2de92c6f, 0x4a7484aa, 0x5cb0a9dc, 0x76f988da] @
     [0x983e5152, 0xa831c66d, 0xb00327c8, 0xbf597fc7, 0xc6e00bf3, 0xd5a79147, 0x06ca6351, 0x14292967] @
     [0x27b70a85, 0x2e1b2138, 0x4d2c6dfc, 0x53380d13, 0x650a7354, 0x766a0abb, 0x81c2c92e, 0x92722c85] @
     [0xa2bfe8a1, 0xa81a664b, 0xc24b8b70, 0xc76c51a3, 0xd192e819, 0xd6990624, 0xf40e3585, 0x106aa070] @
     [0x19a4c116, 0x1e376c08, 0x2748774c, 0x34b0bcb5, 0x391c0cb3, 0x4ed8aa4a, 0x5b9cca4f, 0x682e6ff3] @
     [0x748f82ee, 0x78a5636f, 0x84c87814, 0x8cc70208, 0x90befffa, 0xa4506ceb, 0xbef9a3f7, 0xc67178f2]"

definition ROTR :: "nat \<Rightarrow> int32 \<Rightarrow> int32" where
  "ROTR n x = drop_bit n x OR push_bit (32 - n) x"

definition Sigma0 :: "int32 \<Rightarrow> int32" where
  "Sigma0 x = ROTR 2 x XOR ROTR 13 x XOR ROTR 22 x"

definition Sigma1 :: "int32 \<Rightarrow> int32" where
  "Sigma1 x = ROTR 6 x XOR ROTR 11 x XOR ROTR 25 x"

definition sigma0 :: "int32 \<Rightarrow> int32" where
  "sigma0 x = ROTR 7 x XOR ROTR 18 x XOR drop_bit 3 x"

definition sigma1 :: "int32 \<Rightarrow> int32" where
  "sigma1 x = ROTR 17 x XOR ROTR 19 x XOR drop_bit 10 x"

definition Ch :: "int32 \<Rightarrow> int32 \<Rightarrow> int32 \<Rightarrow> int32" where
  "Ch x y z = (x AND y) XOR (NOT x AND z)"

definition Maj :: "int32 \<Rightarrow> int32 \<Rightarrow> int32 \<Rightarrow> int32" where
  "Maj x y z = (x AND y) XOR (x AND z) XOR (y AND z)"

definition readWithTrailingBit :: "bytes \<Rightarrow> nat \<Rightarrow> int32" where
  "readWithTrailingBit data idx =
     (if idx < length data then byteToInt32 (data ! idx)
      else if idx = length data then 0x80
      else 0)"

text \<open>
  The number of 16-word blocks: \<open>l = (data.length + 1) / 4 + 2\<close> and
  \<open>N = Math.ceil(l / 16)\<close>, both exact in floating point, so
  \<open>N = \<lceil>(data.length + 9) / 64\<rceil>\<close>.
\<close>

definition blockCount :: "bytes \<Rightarrow> nat" where
  "blockCount data = (length data + 9 + 63) div 64"

definition blockWord :: "bytes \<Rightarrow> nat \<Rightarrow> nat \<Rightarrow> int32" where
  "blockWord data i j =
     push_bit 24 (readWithTrailingBit data (i * 64 + j * 4))
     OR push_bit 16 (readWithTrailingBit data (i * 64 + j * 4 + 1))
     OR push_bit 8 (readWithTrailingBit data (i * 64 + j * 4 + 2))
     OR readWithTrailingBit data (i * 64 + j * 4 + 3)"

text \<open>
  The blocks \<open>M\<close>, with the bit length of the message written over the last two words
  of the last block.
\<close>

definition messageBlocks :: "bytes \<Rightarrow> int32 list list" where
  "messageBlocks data =
     (let N = blockCount data;
          M = map (\<lambda>i. map (\<lambda>j. blockWord data i j) [0..<16]) [0..<N];
          last1 = (M ! (N - 1))[14 := toInt32 ((int (length data) * 8) div 2 ^ 32)];
          last2 = last1[15 := toInt32 (int (length data) * 8)]
      in M[N - 1 := last2])"

text \<open>The message schedule: \<open>W[t]\<close> for \<open>t\<close> from the length of the list on.\<close>

fun schedule :: "nat \<Rightarrow> int32 list \<Rightarrow> int32 list" where
  "schedule 0 W = W"
| "schedule (Suc n) W =
     (let t = length W
      in schedule n (W @ [sigma1 (W ! (t - 2)) + W ! (t - 7) + sigma0 (W ! (t - 15)) + W ! (t - 16)]))"

record workingVars =
  va :: int32
  vb :: int32
  vc :: int32
  vd :: int32
  ve :: int32
  vf :: int32
  vg :: int32
  vh :: int32

definition round256 :: "int32 list \<Rightarrow> workingVars \<Rightarrow> nat \<Rightarrow> workingVars" where
  "round256 W v t =
     (let T1 = vh v + Sigma1 (ve v) + Ch (ve v) (vf v) (vg v) + K ! t + W ! t;
          T2 = Sigma0 (va v) + Maj (va v) (vb v) (vc v)
      in \<lparr>va = T1 + T2, vb = va v, vc = vb v, vd = vc v,
          ve = vd v + T1, vf = ve v, vg = vf v, vh = vg v\<rparr>)"

definition compress :: "int32 list \<Rightarrow> int32 list \<Rightarrow> int32 list" where
  "compress H Mi =
     (let W = schedule 48 Mi;
          v0 = \<lparr>va = H ! 0, vb = H ! 1, vc = H ! 2, vd = H ! 3,
                ve = H ! 4, vf = H ! 5, vg = H ! 6, vh = H ! 7\<rparr>;
          v = foldl (round256 W) v0 [0..<64]
      in [H ! 0 + va v, H ! 1 + vb v, H ! 2 + vc v, H ! 3 + vd v,
          H ! 4 + ve v, H ! 5 + vf v, H ! 6 + vg v, H ! 7 + vh v])"

definition sha256 :: "bytes \<Rightarrow> bytes" where
  "sha256 data =
     (let H0 = [0x6a09e667, 0xbb67ae85, 0x3c6ef372, 0xa54ff53a,
                0x510e527f, 0x9b05688c, 0x1f83d9ab, 0x5be0cd19];
          H = foldl compress H0 (messageBlocks data)
      in concat (map (\<lambda>h. [toUint8 (drop_bit 24 h), toUint8 (drop_bit 16 h),
                            toUint8 (drop_bit 8 h), toUint8 h]) H))"

section \<open>sharedUUIDv7.ts\<close>

record SerializedGenerationParams =
  initBytesBase64 :: string
  signatureBase64 :: string

record UUIDGeneratorState =
  notBefore :: int
  lastGenTS :: int
  lastGenSeq :: int
  seed :: bytes
  privKey :: string

text \<open>
  \<open>atob\<close> is the platform's base-64 decoder; \<open>atob\<close> below is its result read as bytes
  (\<open>Uint8Array.from(atob(s), v => v.charCodeAt(0))\<close>). The loop reads the first six
  bytes; with fewer than six, \<open>seed[i]\<close> is \<open>undefined\<close> and \<open>notBefore\<close> becomes \<open>NaN\<close>,
  which the \<open>int\<close> fields of the record cannot hold: the result is \<open>None\<close> then.
  (\<open>makeSigned\<close> always draws 80 bytes.)
\<close>

definition signedInfoToUuid7GenParams ::
  "(string \<Rightarrow> bytes) \<Rightarrow> SerializedGenerationParams \<Rightarrow> UUIDGeneratorState option" where
  "signedInfoToUuid7GenParams atob obj =
     (let seed0 = atob (initBytesBase64 obj)
      in if length seed0 < 6 then None
         else
           let (nb, sd) = foldl (\<lambda>(nb, sd) i. (nb * 256 + uint (sd ! i), sd[i := 0]))
                                (0, seed0) [0..<6]
           in Some \<lparr>notBefore = nb, lastGenTS = nb, lastGenSeq = 0, seed = sd,
                    privKey = signatureBase64 obj\<rparr>)"

text \<open>
  \<open>newUUIDv7Bytes(gp, ts, seq)\<close>. \<open>now\<close> is the value of \<open>Date.now()\<close>; the generator
  state is passed in and returned, since the branch without \<open>ts\<close> writes to it.
\<close>

definition tsByte :: "int \<Rightarrow> nat \<Rightarrow> 8 word" where
  "tsByte ts i = toUint8 (255 AND toInt32 (truncQuot ts (256 ^ (5 - i))))"

definition pickTsSeq ::
  "int \<Rightarrow> UUIDGeneratorState \<Rightarrow> int option \<Rightarrow> int option \<Rightarrow> UUIDGeneratorState \<times> int \<times> int" where
  "pickTsSeq now gp ts seq =
     (case ts of
        None \<Rightarrow>
          (let ts1 = (if now < lastGenTS gp then lastGenTS gp else now)
           in if ts1 = lastGenTS gp then
                (let gp1 = gp\<lparr>lastGenSeq := lastGenSeq gp + 1\<rparr>
                 in if lastGenSeq gp1 \<ge> 16 * 256
                    then (gp1\<lparr>lastGenSeq := 0, lastGenTS := ts1 + 1\<rparr>, ts1 + 1, 0)
                    else (gp1, ts1, lastGenSeq gp1))
              else (gp\<lparr>lastGenSeq := 0\<rparr>, ts1, 0))
      | Some t \<Rightarrow> (gp, t, (case seq of None \<Rightarrow> 0 | Some s \<Rightarrow> s)))"

definition uuidFromSeed :: "bytes \<Rightarrow> int \<Rightarrow> int \<Rightarrow> bytes" where
  "uuidFromSeed sd ts seq =
     (let seedBytes = foldl (\<lambda>sb i. sb[i := tsByte ts i]) sd [0..<6];
          seedBytes = seedBytes[6 := toUint8 (signed_drop_bit 8 (toInt32 seq) AND 0xff)];
          seedBytes = seedBytes[7 := toUint8 (toInt32 seq AND 0xff)];
          digested = sha256 seedBytes;
          uuid = take 16 digested;
          uuid = foldl (\<lambda>u i. u[i := tsByte ts i]) uuid [0..<6];
          uuid = uuid[6 := toUint8 (0x70 OR (signed_drop_bit 8 (toInt32 seq) AND 0xf))];
          uuid = uuid[7 := toUint8 (toInt32 seq AND 0xff)];
          uuid = uuid[8 := toUint8 (0x80 OR (byteOrZero uuid 8 AND 0x3f))]
      in uuid)"

definition newUUIDv7Bytes ::
  "int \<Rightarrow> UUIDGeneratorState \<Rightarrow> int option \<Rightarrow> int option \<Rightarrow> UUIDGeneratorState \<times> bytes" where
  "newUUIDv7Bytes now gp ts seq =
     (let (gp', ts', seq') = pickTsSeq now gp ts seq
      in (gp', uuidFromSeed (seed gp') ts' seq'))"

definition isUUIDv7 :: "bytes \<Rightarrow> bool" where
  "isUUIDv7 uuid \<longleftrightarrow>
     length uuid = 16 \<and> byteOrZero uuid 6 AND 0xf0 = 0x70 \<and> byteOrZero uuid 8 AND 0xc0 = 0x80"

text \<open>
  The two accessors read fixed positions; the callers in this program apply them to
  16-byte arrays only. On a shorter array the source yields \<open>NaN\<close> for the time stamp
  (\<open>None\<close> here).
\<close>

definition getUUIDv7Timestamp :: "bytes \<Rightarrow> int option" where
  "getUUIDv7Timestamp uuid =
     (if length uuid < 6 then None
      else Some (foldl (\<lambda>timeStamp i. timeStamp * 256 + uint (uuid ! i)) 0 [0..<6]))"

definition getUUIDv7SeqNo :: "bytes \<Rightarrow> int" where
  "getUUIDv7SeqNo uuid =
     sint (push_bit 8 (byteOrZero uuid 6 AND 0xf)) + sint (byteOrZero uuid 7 AND 0xff)"

text \<open>\<open>n.toString(16)\<close> for a number between 0 and 15.\<close>

definition hexDigit :: "int32 \<Rightarrow> char" where
  "hexDigit n = ''0123456789abcdef'' ! unat n"

definition uuidBytesToString :: "bytes \<Rightarrow> string" where
  "uuidBytesToString bs =
     concat (map (\<lambda>i. (if i = 4 \<or> i = 6 \<or> i = 8 \<or> i = 10 then ''-'' else [])
                      @ [hexDigit (signed_drop_bit 4 (byteOrZero bs i)),
                         hexDigit (byteOrZero bs i AND 0xf)])
                 [0..<16])"

definition dashCode :: int where
  "dashCode = 45"

text \<open>The argument is \<open>None\<close> for \<open>NaN\<close> (a character code read past the end).\<close>

definition hexAsciiToBits :: "int option \<Rightarrow> int" where
  "hexAsciiToBits a =
     (case a of
        None \<Rightarrow> - 1
      | Some ascii \<Rightarrow>
          if 48 \<le> ascii \<and> ascii \<le> 57 then ascii - 48
          else if 97 \<le> ascii \<and> ascii \<le> 102 then ascii - 97 + 10
          else if 65 \<le> ascii \<and> ascii \<le> 70 then ascii - 65 + 10
          else - 1)"

text \<open>
  One pass of the \<open>while\<close> loop of \<open>parseUUIDString\<close>. \<open>obuf\<close> is \<open>None\<close> in the dry
  run and the buffer in the second pass. The result is \<open>None\<close> where the source returns
  \<open>null\<close> from inside the loop, and the buffer and both indices when the loop ends.
\<close>

function parseLoop ::
  "string \<Rightarrow> bytes option \<Rightarrow> nat \<Rightarrow> nat \<Rightarrow> (bytes option \<times> nat \<times> nat) option" where
  "parseLoop str obuf iidx oidx =
     (if iidx < 36 \<and> oidx < 16 then
        (let cc0a = charCodeAt str iidx
         in if cc0a = Some dashCode then
              (if iidx \<noteq> 8 \<and> iidx \<noteq> 13 \<and> iidx \<noteq> 18 \<and> iidx \<noteq> 23 then None
               else parseLoop str obuf (iidx + 1) oidx)
            else
              (let cc0 = hexAsciiToBits cc0a;
                   cc1 = hexAsciiToBits (charCodeAt str (iidx + 1))
               in if cc0 = - 1 \<or> cc1 = - 1 then None
                  else parseLoop str
                         (map_option (\<lambda>b. b[oidx := toUint8 (push_bit 16 (toInt32 cc0) OR toInt32 cc1)]) obuf)
                         (iidx + 2) (oidx + 1)))
      else Some (obuf, iidx, oidx))"
  by pat_completeness auto
termination
  by (relation "measure (\<lambda>(str, obuf, iidx, oidx). 36 - iidx)") auto

declare parseLoop.simps [simp del]

definition parsePass :: "string \<Rightarrow> bytes option \<Rightarrow> (bytes option) option" where
  "parsePass str obuf =
     (case parseLoop str obuf 0 0 of
        None \<Rightarrow> None
      | Some (obuf', iidx, oidx) \<Rightarrow> if iidx \<noteq> 36 \<or> oidx \<noteq> 16 then None else Some obuf')"

text \<open>
  \<open>parseUUIDString\<close>: \<open>None\<close> is \<open>null\<close>. The first pass has no buffer and so returns
  nothing; the second returns its buffer. The \<open>throw\<close> after the loop is unreachable.
\<close>

definition parseUUIDString :: "string \<Rightarrow> bytes option" where
  "parseUUIDString str =
     (if length str \<noteq> 36 then None
      else case parsePass str None of
             None \<Rightarrow> None
           | Some _ \<Rightarrow>
               (case parsePass str (Some (replicate 16 0)) of
                  None \<Rightarrow> None
                | Some obuf \<Rightarrow> obuf))"

definition newUUIDv7String ::
  "int \<Rightarrow> UUIDGeneratorState \<Rightarrow> int option \<Rightarrow> int option \<Rightarrow> UUIDGeneratorState \<times> string" where
  "newUUIDv7String now gp ts seq =
     (let (gp', bs) = newUUIDv7Bytes now gp ts seq in (gp', uuidBytesToString bs))"

section \<open>JavaScript values\<close>

text \<open>
  The values that travel through the server: what \<open>JSON.parse\<close> produces and what a
  filter may return. Arrays, objects and promises are held by reference: the \<open>nat\<close> is
  the identity of the object, and \<open>===\<close> compares identities, never contents. The fields
  of an object are an association list in which the first binding of a name counts.
\<close>

datatype jsval =
    JUndefined
  | JNull
  | JBool bool
  | JNum int
  | JStr string
  | JArr nat "jsval list"
  | JObj nat "(string \<times> jsval) list"
  | JPromise nat

fun typeof :: "jsval \<Rightarrow> string" where
  "typeof JUndefined = ''undefined''"
| "typeof JNull = ''object''"
| "typeof (JBool b) = ''boolean''"
| "typeof (JNum n) = ''number''"
| "typeof (JStr s) = ''string''"
| "typeof (JArr r xs) = ''object''"
| "typeof (JObj r fs) = ''object''"
| "typeof (JPromise r) = ''object''"

fun strictEq :: "jsval \<Rightarrow> jsval \<Rightarrow> bool" where
  "strictEq JUndefined JUndefined = True"
| "strictEq JNull JNull = True"
| "strictEq (JBool a) (JBool b) = (a = b)"
| "strictEq (JNum a) (JNum b) = (a = b)"
| "strictEq (JStr a) (JStr b) = (a = b)"
| "strictEq (JArr r xs) (JArr r' ys) = (r = r')"
| "strictEq (JObj r fs) (JObj r' gs) = (r = r')"
| "strictEq (JPromise r) (JPromise r') = (r = r')"
| "strictEq _ _ = False"

text \<open>
  \<open>v.name\<close> for the two names the server reads, \<open>type\<close> and \<open>message\<close>: an own field of an
  object, and \<open>undefined\<close> on every other value (no built-in prototype defines either
  name). \<open>v?.name\<close> is \<open>undefined\<close> on \<open>null\<close> and \<open>undefined\<close>; \<open>a ?? b\<close> is \<open>b\<close> exactly
  when \<open>a\<close> is \<open>null\<close> or \<open>undefined\<close>.
\<close>

fun getProp :: "jsval \<Rightarrow> string \<Rightarrow> jsval" where
  "getProp (JObj r fs) name = (case map_of fs name of None \<Rightarrow> JUndefined | Some v \<Rightarrow> v)"
| "getProp _ name = JUndefined"

definition isNullish :: "jsval \<Rightarrow> bool" where
  "isNullish v \<longleftrightarrow> v = JUndefined \<or> v = JNull"

definition optChain :: "jsval \<Rightarrow> string \<Rightarrow> jsval" where
  "optChain v name = (if isNullish v then JUndefined else getProp v name)"

definition nullish :: "jsval \<Rightarrow> jsval \<Rightarrow> jsval" where
  "nullish a b = (if isNullish a then b else a)"

text \<open>\<open>!v\<close>: the falsy values (\<open>NaN\<close> is not among the numbers of this model).\<close>

definition falsy :: "jsval \<Rightarrow> bool" where
  "falsy v \<longleftrightarrow> v = JUndefined \<or> v = JNull \<or> v = JBool False \<or> v = JNum 0 \<or> v = JStr []"

text \<open>\<open>a < b\<close> on strings: lexicographic on the character codes, a proper prefix first.\<close>

fun strLess :: "string \<Rightarrow> string \<Rightarrow> bool" where
  "strLess [] [] = False"
| "strLess [] (y # ys) = True"
| "strLess (x # xs) [] = False"
| "strLess (x # xs) (y # ys) =
     ((of_char x :: nat) < of_char y \<or> (x = y \<and> strLess xs ys))"

section \<open>shared.ts: the messages\<close>

text \<open>
  The three fault responses are built by one object literal whose \<open>type\<close> is looked up in
  a table; they are the constructor \<open>FaultResponse type actionId message\<close>.
\<close>

datatype ServerToClientMessage =
    InvalidStore
  | Connected jsval string SerializedGenerationParams
  | ActionMsg jsval string
  | AckAction string
  | ReplaceAction string string jsval
  | RenameId string string
  | FaultResponse string string jsval

datatype ClientToServerMessage =
    Connect string "string option" "SerializedGenerationParams option"
  | Action string jsval

section \<open>server.ts\<close>

datatype error = Thrown string

record ReduxMPServerClientContext =
  autoClientId :: string
  clientId :: "string option"
  contextId :: string
  uuidParams :: "SerializedGenerationParams option"
  uuidGenState :: "UUIDGeneratorState option"
  socket :: nat

text \<open>
  \<open>store\<close> is the state held by the redux store of the context, \<open>socketToClient\<close> the
  \<open>Map\<close> in insertion order. \<open>sendToClient\<close> of a client writes to the socket the client
  was created with, the field \<open>socket\<close>. The queue of scheduled tasks holds closures and
  takes no part in the handling of a message; it is left out.
\<close>

record ReduxMPServerContext =
  socketToClient :: "(nat \<times> ReduxMPServerClientContext) list"
  store :: jsval
  lastAction :: string

record MPServerActionFilterContext =
  key :: string
  getState :: jsval
  verifyUUID :: "string \<Rightarrow> bool"

text \<open>
  The collaborators handed to \<open>createReduxMultiplayerServer\<close>. A call of a collaborator
  returns a value or throws (\<open>Inl\<close>).
\<close>

record ReduxMPServerOptions =
  actionFilter :: "(MPServerActionFilterContext \<Rightarrow> jsval \<Rightarrow> error + jsval) option"
  reducer :: "jsval \<Rightarrow> jsval \<Rightarrow> error + jsval"

text \<open>
  What the handler reads from outside the repository: \<open>nextId\<close> is the value of
  \<open>v7uuid()\<close> of this call, \<open>gpVerify\<close> and \<open>gpMakeSigned\<close> are \<open>gpContext.verify\<close> and the
  bundle \<open>gpContext.makeSigned()\<close> would mint now, \<open>atob\<close> the base-64 decoder.
\<close>

record Env =
  nextId :: string
  gpVerify :: "SerializedGenerationParams \<Rightarrow> bool"
  gpMakeSigned :: SerializedGenerationParams
  atob :: "string \<Rightarrow> bytes"

text \<open>
  Modelled from the spec: \<open>createStore\<close> and \<open>Store.dispatch\<close> belong to the redux
  library and are not under src. The spec: "Apply the reducer:
  \<open>context.state := reducer(context.state, accepted)\<close>". A dispatch that throws, in the
  reducer or in a check the store makes on the action before it calls the reducer,
  leaves the state as it was; such a check is part of the function given as \<open>reducer\<close>.
\<close>

definition dispatch :: "ReduxMPServerOptions \<Rightarrow> jsval \<Rightarrow> jsval \<Rightarrow> error + jsval" where
  "dispatch options st action = reducer options st action"

text \<open>
  \<open>verifyUUID\<close> of the filter context. \<open>parsed\<close> has 16 bytes where the time stamp is
  read, so \<open>ts\<close> is a number. \<open>Date.now()\<close> is not read when \<open>ts\<close> is given, so the 0 in
  its place is immaterial; the generator state returned is the one passed in.
\<close>

definition verifyUUID_impl :: "UUIDGeneratorState option \<Rightarrow> string \<Rightarrow> bool" where
  "verifyUUID_impl genState uuid =
     (case genState of
        None \<Rightarrow> False
      | Some g \<Rightarrow>
          (case parseUUIDString uuid of
             None \<Rightarrow> False
           | Some parsed \<Rightarrow>
               if \<not> isUUIDv7 parsed then False
               else
                 let ts = getUUIDv7Timestamp parsed;
                     seq = getUUIDv7SeqNo parsed;
                     checked = snd (newUUIDv7Bytes 0 g ts (Some seq))
                 in if length checked \<noteq> length parsed then False
                    else list_all (\<lambda>i. checked ! i = parsed ! i) [0..<length checked]))"

text \<open>The id policy: \<open>msg.actionId < context.lastAction || msg.actionId > next\<close>.\<close>

definition chooseId :: "string \<Rightarrow> string \<Rightarrow> string \<Rightarrow> string" where
  "chooseId lastAct next actionId =
     (if strLess actionId lastAct \<or> strLess next actionId then next else actionId)"

definition respTypes :: "string \<Rightarrow> string" where
  "respTypes t =
     (if t = ''needAuth'' then ''needAuthentication''
      else if t = ''badAuth'' then ''badAuthorization''
      else ''rejectAction'')"

definition isFaultType :: "jsval \<Rightarrow> bool" where
  "isFaultType t \<longleftrightarrow> t = JStr ''reject'' \<or> t = JStr ''needAuth'' \<or> t = JStr ''badAuth''"

fun strOf :: "jsval \<Rightarrow> string" where
  "strOf (JStr s) = s"
| "strOf _ = []"

text \<open>
  The result of handling one message: the context and the client as they are afterwards,
  the messages written, each with the socket it was written to, in order, and the
  exception that ended the handler, if one did.
\<close>

record Outcome =
  context' :: ReduxMPServerContext
  client' :: ReduxMPServerClientContext
  sent :: "(nat \<times> ServerToClientMessage) list"
  thrown :: "error option"

definition senderResponse :: "bool \<Rightarrow> string \<Rightarrow> string \<Rightarrow> jsval \<Rightarrow> ServerToClientMessage" where
  "senderResponse isReplaced actionId ident filteredAction =
     (if isReplaced then ReplaceAction actionId ident filteredAction
      else if ident \<noteq> actionId then RenameId actionId ident
      else AckAction actionId)"

definition fanOut ::
  "ReduxMPServerContext \<Rightarrow> ReduxMPServerClientContext \<Rightarrow> jsval \<Rightarrow> string
   \<Rightarrow> (nat \<times> ServerToClientMessage) list" where
  "fanOut context clientContext filteredAction ident =
     map (\<lambda>(sock, iterClient). (socket iterClient, ActionMsg filteredAction ident))
         (filter (\<lambda>(sock, iterClient). autoClientId iterClient \<noteq> autoClientId clientContext)
                 (socketToClient context))"

text \<open>
  \<open>options.actionFilter ? options.actionFilter(filterContext, msg.actionData)
  : msg.actionData\<close>, with the filter context built in \<open>connect\<close>.
\<close>

definition filterContextOf ::
  "string \<Rightarrow> ReduxMPServerContext \<Rightarrow> ReduxMPServerClientContext \<Rightarrow> MPServerActionFilterContext" where
  "filterContextOf k context clientContext =
     \<lparr>key = k, getState = store context,
      verifyUUID = verifyUUID_impl (uuidGenState clientContext)\<rparr>"

definition applyFilter ::
  "ReduxMPServerOptions \<Rightarrow> MPServerActionFilterContext \<Rightarrow> jsval \<Rightarrow> error + jsval" where
  "applyFilter options filterContext actionData =
     (case actionFilter options of
        Some f \<Rightarrow> f filterContext actionData
      | None \<Rightarrow> Inr actionData)"

text \<open>\<open>filteredAction?.type ?? filteredAction\<close>.\<close>

definition filteredTypeOf :: "jsval \<Rightarrow> jsval" where
  "filteredTypeOf filteredAction = nullish (optChain filteredAction ''type'') filteredAction"

definition processAction ::
  "ReduxMPServerOptions \<Rightarrow> Env \<Rightarrow> string \<Rightarrow> ReduxMPServerContext \<Rightarrow> ReduxMPServerClientContext
   \<Rightarrow> string \<Rightarrow> jsval \<Rightarrow> Outcome" where
  "processAction options env k context clientContext actionId actionData =
     (let unchanged = \<lparr>context' = context, client' = clientContext, sent = [], thrown = None\<rparr>
      in if ''object'' \<noteq> typeof actionData then unchanged
         else
           let next = nextId env;
               ident = chooseId (lastAction context) next actionId
           in case applyFilter options (filterContextOf k context clientContext) actionData of
                Inl e \<Rightarrow> unchanged\<lparr>thrown := Some e\<rparr>
              | Inr filteredAction \<Rightarrow>
                  let filteredType = filteredTypeOf filteredAction
                  in if isFaultType filteredType then
                       (let respType = respTypes (strOf filteredType)
                        in unchanged\<lparr>sent :=
                             [(socket clientContext,
                               FaultResponse respType actionId
                                 (nullish (optChain filteredAction ''message'')
                                    (JStr (''no extra message given for '' @ respType))))]\<rparr>)
                     else
                       let isReplaced = \<not> strictEq filteredAction actionData
                       in case dispatch options (store context) filteredAction of
                            Inl e \<Rightarrow> unchanged\<lparr>thrown := Some e\<rparr>
                          | Inr st \<Rightarrow>
                              \<lparr>context' = context\<lparr>store := st\<rparr>,
                               client' = clientContext,
                               sent = (socket clientContext,
                                       senderResponse isReplaced actionId ident filteredAction)
                                      # fanOut context clientContext filteredAction ident,
                               thrown = None\<rparr>)"

text \<open>
  The \<open>connect\<close> case. The client context is the object stored in \<open>socketToClient\<close> under
  its socket, so the writes to it show there too.
\<close>

definition processConnect ::
  "Env \<Rightarrow> ReduxMPServerContext \<Rightarrow> ReduxMPServerClientContext
   \<Rightarrow> string option \<Rightarrow> SerializedGenerationParams option \<Rightarrow> Outcome" where
  "processConnect env context clientContext cid params =
     (let c1 = (case cid of
                  Some c \<Rightarrow> if c \<noteq> [] then clientContext\<lparr>clientId := Some c\<rparr> else clientContext
                | None \<Rightarrow> clientContext);
          up = (case params of
                  Some p \<Rightarrow> if gpVerify env p then p else gpMakeSigned env
                | None \<Rightarrow> gpMakeSigned env);
          c2 = c1\<lparr>uuidParams := Some up,
                  uuidGenState := signedInfoToUuid7GenParams (atob env) up\<rparr>
      in \<lparr>context' = context\<lparr>socketToClient :=
                         map (\<lambda>(sock, c). if sock = socket clientContext then (sock, c2) else (sock, c))
                             (socketToClient context)\<rparr>,
          client' = c2,
          sent = [(socket clientContext,
                   Connected (store context)
                     (case clientId c2 of Some c \<Rightarrow> c | None \<Rightarrow> autoClientId c2) up)],
          thrown = None\<rparr>)"

fun processFromClient ::
  "ReduxMPServerOptions \<Rightarrow> Env \<Rightarrow> string \<Rightarrow> ReduxMPServerContext \<Rightarrow> ReduxMPServerClientContext
   \<Rightarrow> ClientToServerMessage \<Rightarrow> Outcome" where
  "processFromClient options env k context clientContext (Connect lastSeen cid params) =
     processConnect env context clientContext cid params"
| "processFromClient options env k context clientContext (Action actionId actionData) =
     processAction options env k context clientContext actionId actionData"

subsection \<open>createContext\<close>

text \<open>
  \<open>createContext\<close> is an \<open>async\<close> function with one \<open>await\<close> on each path. It runs in two
  steps: \<open>createContext_begin\<close> up to the \<open>await\<close>, and, on the path that called
  \<open>hydrate\<close>, \<open>createContext_resume\<close> from the outcome of \<open>hydrate\<close> to the end, the
  \<open>finally\<close> block included. A promise is a cell of \<open>promises\<close>; a caller that awaits a
  cell goes on when the cell is no longer \<open>Pending\<close>.
\<close>

datatype 'a promiseState = Pending | Fulfilled 'a | Rejected error

record Registry =
  pendings :: "string \<rightharpoonup> nat"
  promises :: "ReduxMPServerContext option promiseState list"
  contexts :: "string \<rightharpoonup> ReduxMPServerContext"

datatype suspended = AwaitPending nat | AwaitHydrate nat

definition createContext_begin :: "string \<Rightarrow> Registry \<Rightarrow> Registry \<times> suspended" where
  "createContext_begin k reg =
     (case pendings reg k of
        Some p \<Rightarrow> (reg, AwaitPending p)
      | None \<Rightarrow>
          (let p = length (promises reg)
           in (reg\<lparr>promises := promises reg @ [Pending], pendings := (pendings reg)(k \<mapsto> p)\<rparr>,
               AwaitHydrate p)))"

datatype hydrateOutcome = HydrateReturned jsval | HydrateThrew error

text \<open>
  \<open>fresh\<close> is the value of \<open>v7uuid()\<close> for \<open>lastAction\<close>. The value returned is that of
  the \<open>async\<close> call: \<open>Some c\<close> for a context, \<open>None\<close> for \<open>null\<close> and, after the \<open>catch\<close>,
  for \<open>undefined\<close>. The state of the new store is the hydrated value (the specification:
  "the current value produced by successive reducer applications over the hydrated
  initial value"); the worker loop started for the context touches neither map.
\<close>

definition createContext_resume ::
  "string \<Rightarrow> string \<Rightarrow> nat \<Rightarrow> hydrateOutcome \<Rightarrow> Registry
   \<Rightarrow> Registry \<times> ReduxMPServerContext option" where
  "createContext_resume k fresh p outcome reg =
     (case outcome of
        HydrateReturned initialData \<Rightarrow>
          if falsy initialData then (reg\<lparr>pendings := (pendings reg)(k := None)\<rparr>, None)
          else
            (let context = \<lparr>socketToClient = [], store = initialData, lastAction = fresh\<rparr>
             in (reg\<lparr>contexts := (contexts reg)(k \<mapsto> context),
                     promises := (promises reg)[p := Fulfilled (Some context)],
                     pendings := (pendings reg)(k := None)\<rparr>,
                 Some context))
      | HydrateThrew e \<Rightarrow>
          (reg\<lparr>promises := (promises reg)[p := Rejected e],
               pendings := (pendings reg)(k := None)\<rparr>,
           None))"

text \<open>What a caller suspended on the promise \<open>p\<close> sees.\<close>

definition awaited :: "Registry \<Rightarrow> nat \<Rightarrow> ReduxMPServerContext option promiseState" where
  "awaited reg p = (if p < length (promises reg) then promises reg ! p else Pending)"

section \<open>Concrete data\<close>

text \<open>
  A bundle as \<open>makeSigned\<close> mints it: six bytes of time stamp, 74 bytes of seed, with
  its base-64 text (108 characters); the generator state decoded from it; and the bytes of the UUID
  \<open>018f0000-0000-7000-8000-000000000001\<close> of the specification's scenarios.
\<close>

definition exampleBundleBytes :: bytes where
  "exampleBundleBytes = [0x01, 0x8f, 0, 0, 0, 0] @ replicate 74 0x2a"

definition exampleBase64 :: string where
  "exampleBase64 =
     ''AY8AAAAAKioqKioqKioqKioqKioqKioqKioqKioqKioqKioqKioqKioq''
     @ ''KioqKioqKioqKioqKioqKioqKioqKioqKioqKioqKioqKioqKioqKio=''"

definition exampleParams :: SerializedGenerationParams where
  "exampleParams = \<lparr>initBytesBase64 = exampleBase64, signatureBase64 = ''c2ln''\<rparr>"

definition exampleAtob :: "string \<Rightarrow> bytes" where
  "exampleAtob s = (if s = exampleBase64 then exampleBundleBytes else [])"

definition exampleGenState :: UUIDGeneratorState where
  "exampleGenState =
     \<lparr>notBefore = 0x018f00000000, lastGenTS = 0x018f00000000, lastGenSeq = 0,
      seed = [0, 0, 0, 0, 0, 0] @ replicate 74 0x2a, privKey = ''c2ln''\<rparr>"

definition exampleUUID :: bytes where
  "exampleUUID = [0x01, 0x8f, 0, 0, 0, 0, 0x70, 0, 0x80, 0, 0, 0, 0, 0, 0, 0x01]"

text \<open>The first \<open>n\<close> bytes of a parse buffer have an empty high nibble.\<close>

definition lowOnly :: "bytes \<Rightarrow> nat \<Rightarrow> bool" where
  "lowOnly b n \<longleftrightarrow> length b = 16 \<and> (\<forall>j<n. byteToInt32 (b ! j) AND 0xf0 = 0)"

section \<open>The verdicts in the specification's words\<close>

text \<open>
  The specification names a fault verdict as one of the strings \<open>reject\<close>, \<open>needAuth\<close>,
  \<open>badAuth\<close>, given as a string or as the \<open>type\<close> field of a fault object, and the
  message of the response as the \<open>message\<close> field of the fault object or a default text.
  The three definitions below follow these words; the theorems compare them with what
  \<open>processFromClient\<close> computes.
\<close>

definition faultNames :: "string list" where
  "faultNames = [''reject'', ''needAuth'', ''badAuth'']"

definition faultVerdict :: "jsval \<Rightarrow> string option" where
  "faultVerdict v =
     (case v of
        JStr t \<Rightarrow> if t \<in> set faultNames then Some t else None
      | JObj r fs \<Rightarrow>
          (case map_of fs ''type'' of
             Some (JStr t) \<Rightarrow> if t \<in> set faultNames then Some t else None
           | _ \<Rightarrow> None)
      | _ \<Rightarrow> None)"

definition faultResponseType :: "string \<Rightarrow> string" where
  "faultResponseType t =
     (if t = ''reject'' then ''rejectAction''
      else if t = ''needAuth'' then ''needAuthentication''
      else ''badAuthorization'')"

definition faultMessage :: "jsval \<Rightarrow> string \<Rightarrow> jsval" where
  "faultMessage v respType =
     (let dflt = JStr (''no extra message given for '' @ respType)
      in case v of
           JObj r fs \<Rightarrow>
             (case map_of fs ''message'' of
                None \<Rightarrow> dflt
              | Some m \<Rightarrow> if m = JNull \<or> m = JUndefined then dflt else m)
         | _ \<Rightarrow> dflt)"

text \<open>
  A session is live on a context when the context's map holds the client under its
  socket; the keys of a \<open>Map\<close> are distinct, and every client was stored under the socket
  it writes to.
\<close>

definition liveOn :: "ReduxMPServerContext \<Rightarrow> ReduxMPServerClientContext \<Rightarrow> bool" where
  "liveOn context clientContext \<longleftrightarrow>
     distinct (map fst (socketToClient context))
     \<and> list_all (\<lambda>(sock, c). socket c = sock) (socketToClient context)
     \<and> (socket clientContext, clientContext) \<in> set (socketToClient context)"

text \<open>The messages written to one socket.\<close>

definition sentTo :: "nat \<Rightarrow> Outcome \<Rightarrow> ServerToClientMessage list" where
  "sentTo sock out = map snd (filter (\<lambda>m. fst m = sock) (sent out))"

section \<open>Concrete server data\<close>

text \<open>
  The reducer of the specification's scenario S1: it counts the actions of type \<open>inc\<close>
  and returns the state for every other action. Reading \<open>action.type\<close> of \<open>null\<close> or
  \<open>undefined\<close> throws.
\<close>

definition exampleReducer :: "jsval \<Rightarrow> jsval \<Rightarrow> error + jsval" where
  "exampleReducer st action =
     (if isNullish action then Inl (Thrown ''TypeError'')
      else if getProp action ''type'' = JStr ''inc'' then
        (case getProp st ''count'' of
           JNum n \<Rightarrow> Inr (JObj 0 [(''count'', JNum (n + 1))])
         | _ \<Rightarrow> Inr st)
      else Inr st)"

definition identityFilter :: "MPServerActionFilterContext \<Rightarrow> jsval \<Rightarrow> error + jsval" where
  "identityFilter fc a = Inr a"

text \<open>A filter that lets the \<open>inc\<close> actions through and rejects everything else.\<close>

definition strictFilter :: "MPServerActionFilterContext \<Rightarrow> jsval \<Rightarrow> error + jsval" where
  "strictFilter fc a =
     (if optChain a ''type'' = JStr ''inc'' then Inr a else Inr (JStr ''reject''))"

text \<open>A filter that puts a default action in the place of an empty payload.\<close>

definition defaultingFilter :: "MPServerActionFilterContext \<Rightarrow> jsval \<Rightarrow> error + jsval" where
  "defaultingFilter fc a =
     (if isNullish a then Inr (JObj 9 [(''type'', JStr ''inc'')]) else Inr a)"

text \<open>An asynchronous filter: it returns a promise.\<close>

definition asyncFilter :: "MPServerActionFilterContext \<Rightarrow> jsval \<Rightarrow> error + jsval" where
  "asyncFilter fc a = Inr (JPromise 4)"

text \<open>
  redux is not part of the repository. A store built by its \<open>createStore\<close> without
  middleware, as \<open>createContext\<close> builds it, checks the action before it calls the
  reducer: its \<open>dispatch\<close> throws on a value that is not a plain object (a promise, an
  array, \<open>null\<close>, a primitive) and on an object without a \<open>type\<close>. \<open>reduxStore r\<close> is
  the reducer \<open>r\<close> behind these checks.
\<close>

definition isPlainObject :: "jsval \<Rightarrow> bool" where
  "isPlainObject v = (case v of JObj r fs \<Rightarrow> True | _ \<Rightarrow> False)"

definition reduxStore ::
  "(jsval \<Rightarrow> jsval \<Rightarrow> error + jsval) \<Rightarrow> jsval \<Rightarrow> jsval \<Rightarrow> error + jsval" where
  "reduxStore r st action =
     (if \<not> isPlainObject action then Inl (Thrown ''Actions must be plain objects'')
      else if getProp action ''type'' = JUndefined
        then Inl (Thrown ''Actions may not have an undefined type property'')
      else r st action)"

definition reduxOptionsWith ::
  "(MPServerActionFilterContext \<Rightarrow> jsval \<Rightarrow> error + jsval) \<Rightarrow> ReduxMPServerOptions" where
  "reduxOptionsWith f = \<lparr>actionFilter = Some f, reducer = reduxStore exampleReducer\<rparr>"

text \<open>A filter that answers with a fault object.\<close>

definition faultFilter :: "MPServerActionFilterContext \<Rightarrow> jsval \<Rightarrow> error + jsval" where
  "faultFilter fc a =
     Inr (JObj 8 [(''type'', JStr ''needAuth''), (''message'', JStr ''log in first'')])"

definition optionsWith ::
  "(MPServerActionFilterContext \<Rightarrow> jsval \<Rightarrow> error + jsval) \<Rightarrow> ReduxMPServerOptions" where
  "optionsWith f = \<lparr>actionFilter = Some f, reducer = exampleReducer\<rparr>"

definition exampleEnv :: Env where
  "exampleEnv =
     \<lparr>nextId = ''018f0000-0001-7000-8000-0000000000aa'', gpVerify = (\<lambda>p. True),
      gpMakeSigned = exampleParams, atob = exampleAtob\<rparr>"

definition clientOn :: "nat \<Rightarrow> string \<Rightarrow> ReduxMPServerClientContext" where
  "clientOn sock ident =
     \<lparr>autoClientId = ident, clientId = None, contextId = ''room/a'',
      uuidParams = Some exampleParams, uuidGenState = Some exampleGenState, socket = sock\<rparr>"

definition exampleSender :: ReduxMPServerClientContext where
  "exampleSender = clientOn 1 ''018e0000-0000-7000-8000-00000000000a''"

definition exampleContext :: ReduxMPServerContext where
  "exampleContext =
     \<lparr>socketToClient =
        [(1, exampleSender),
         (2, clientOn 2 ''018e0000-0000-7000-8000-00000000000b''),
         (3, clientOn 3 ''018e0000-0000-7000-8000-00000000000c'')],
      store = JObj 0 [(''count'', JNum 0)],
      lastAction = ''018e0000-0000-7000-8000-000000000000''\<rparr>"

definition incAction :: jsval where
  "incAction = JObj 5 [(''type'', JStr ''inc'')]"

definition emptyRegistry :: Registry where
  "emptyRegistry = \<lparr>pendings = Map.empty, promises = [], contexts = Map.empty\<rparr>"

section \<open>The string codec and \<open>verifyUUID\<close>\<close>

lemma hexAsciiToBits_range:
  "hexAsciiToBits a \<noteq> - 1 \<Longrightarrow> 0 \<le> hexAsciiToBits a \<and> hexAsciiToBits a \<le> 15"
  by (auto simp: hexAsciiToBits_def split: option.splits if_splits)

text \<open>
  The byte stored by the parser, \<open>(cc0 << 16) | cc1\<close> cut to eight bits, is \<open>cc1\<close>: the
  first digit of the pair is shifted out of the byte.
\<close>

lemma parsed_byte_low:
  assumes "0 \<le> c1" "c1 \<le> 15"
  shows "byteToInt32 (toUint8 (push_bit 16 (toInt32 c0) OR toInt32 c1)) AND 0xf0 = 0"
proof -
  have mem: "c1 \<in> {0,1,2,3,4,5,6,7,8,9,10,11,12,13,14,15}"
    using assms by simp presburger
  have cut: "toUint8 (push_bit 16 (toInt32 c0) OR toInt32 c1) = toUint8 (toInt32 c1)"
    unfolding toUint8_def toInt32_def
    by (rule bit_word_eqI) (auto simp: bit_simps)
  show ?thesis
    unfolding cut using mem
    by (auto simp: toUint8_def toInt32_def byteToInt32_def)
qed

lemma parseLoop_lowOnly:
  "parseLoop str (Some b) iidx oidx = Some (obuf', i', n') \<Longrightarrow> lowOnly b oidx
   \<Longrightarrow> \<exists>b'. obuf' = Some b' \<and> lowOnly b' n'"
proof (induction "36 - iidx" arbitrary: iidx oidx b rule: less_induct)
  case less
  show ?case
  proof (cases "iidx < 36 \<and> oidx < 16")
    case False
    with less.prems show ?thesis
      by (auto simp: parseLoop.simps[of str "Some b" iidx oidx])
  next
    case inr: True
    show ?thesis
    proof (cases "charCodeAt str iidx = Some dashCode")
      case True
      with inr less.prems
      have rec: "parseLoop str (Some b) (iidx + 1) oidx = Some (obuf', i', n')"
        by (auto simp: parseLoop.simps[of str "Some b" iidx oidx] split: if_splits)
      have "36 - (iidx + 1) < 36 - iidx" using inr by arith
      from less.hyps[OF this rec less.prems(2)] show ?thesis .
    next
      case False
      define c0 where "c0 = hexAsciiToBits (charCodeAt str iidx)"
      define c1 where "c1 = hexAsciiToBits (charCodeAt str (iidx + 1))"
      define b1 where "b1 = b[oidx := toUint8 (push_bit 16 (toInt32 c0) OR toInt32 c1)]"
      from inr False less.prems have ok: "\<not> (c0 = - 1 \<or> c1 = - 1)"
        and rec: "parseLoop str (Some b1) (iidx + 2) (oidx + 1) = Some (obuf', i', n')"
        by (auto simp: parseLoop.simps[of str "Some b" iidx oidx] Let_def c0_def c1_def b1_def
                 split: if_splits)
      have r1: "0 \<le> c1 \<and> c1 \<le> 15"
        using ok hexAsciiToBits_range[of "charCodeAt str (iidx + 1)"] by (simp add: c1_def)
      have low: "lowOnly b1 (oidx + 1)"
        using less.prems(2) inr parsed_byte_low[of c1 c0] r1
        by (auto simp: lowOnly_def b1_def nth_list_update less_Suc_eq)
      have "36 - (iidx + 2) < 36 - iidx" using inr by arith
      from less.hyps[OF this rec low] show ?thesis .
    qed
  qed
qed

text \<open>Whatever \<open>parseUUIDString\<close> returns fails the version test of \<open>isUUIDv7\<close>.\<close>

lemma parsed_never_v7: "parseUUIDString u = Some p \<Longrightarrow> \<not> isUUIDv7 p"
proof -
  assume "parseUUIDString u = Some p"
  then obtain i n
    where l: "parseLoop u (Some (replicate 16 0)) 0 0 = Some (Some p, i, n)" and n: "n = 16"
    by (auto simp: parseUUIDString_def parsePass_def split: if_splits option.splits)
  have "lowOnly (replicate 16 0) 0" by (simp add: lowOnly_def)
  from parseLoop_lowOnly[OF l this] n have "lowOnly p 16" by simp
  then have "length p = 16" "byteToInt32 (p ! 6) AND 0xf0 = 0"
    by (simp_all add: lowOnly_def)
  then show ?thesis by (simp add: isUUIDv7_def byteOrZero_def)
qed

lemma verifyUUID_impl_never: "verifyUUID_impl g u = False"
  by (auto simp: verifyUUID_impl_def parsed_never_v7 split: option.splits)

text \<open>
  C2. The claim: a UUID string minted under the seed of the session, with a time stamp
  below \<open>2 ^ 48\<close> and a sequence number below 4096, passes \<open>verifyUUID\<close>. The code: for
  the generator state decoded from a bundle and the string minted under it at time stamp
  1700000000000 with sequence number 5, \<open>verifyUUID\<close> returns \<open>false\<close>. The parser yields
  bytes without their high nibbles, so the version test on the parsed bytes fails.
\<close>

theorem verifyUUID_rejects_minted:
  "signedInfoToUuid7GenParams exampleAtob exampleParams = Some exampleGenState
   \<and> verifyUUID_impl (Some exampleGenState)
        (snd (newUUIDv7String 0 exampleGenState (Some 1700000000000) (Some 5))) = False"
proof
  show "signedInfoToUuid7GenParams exampleAtob exampleParams = Some exampleGenState"
    by (simp add: signedInfoToUuid7GenParams_def exampleAtob_def exampleParams_def
          exampleBundleBytes_def exampleGenState_def upt_rec)
  show "verifyUUID_impl (Some exampleGenState)
          (snd (newUUIDv7String 0 exampleGenState (Some 1700000000000) (Some 5))) = False"
    by (rule verifyUUID_impl_never)
qed

text \<open>
  C3. The claim: \<open>parseUUIDString (uuidBytesToString b) = b\<close> for every version-7 value
  \<open>b\<close>. The code: the version-7 value \<open>018f0000-0000-7000-8000-000000000001\<close> is printed
  as that string, and the string is parsed to the bytes
  \<open>01 0f 00 00 00 00 00 00 00 00 00 00 00 00 00 01\<close>.
\<close>

theorem parse_of_string_differs:
  "isUUIDv7 exampleUUID
   \<and> uuidBytesToString exampleUUID = ''018f0000-0000-7000-8000-000000000001''
   \<and> parseUUIDString (uuidBytesToString exampleUUID)
       = Some [1, 15, 0, 0, 0, 0, 0, 0, 0, 0, 0, 0, 0, 0, 0, 1]
   \<and> parseUUIDString (uuidBytesToString exampleUUID) \<noteq> Some exampleUUID"
  by code_simp

section \<open>Minting with \<open>ts\<close> and \<open>seq\<close> supplied\<close>

text \<open>
  C9. Two generator states with the same seed bytes yield the same 16 bytes for the same
  supplied \<open>ts\<close> and \<open>seq\<close>, whatever their other fields and whatever the clock shows, and
  a call with \<open>ts\<close> supplied returns the generator state as it was passed in.
\<close>

theorem newUUIDv7Bytes_supplied_deterministic:
  assumes "seed g1 = seed g2"
  shows "snd (newUUIDv7Bytes now1 g1 (Some ts) seq) = snd (newUUIDv7Bytes now2 g2 (Some ts) seq)
         \<and> fst (newUUIDv7Bytes now1 g1 (Some ts) seq) = g1
         \<and> fst (newUUIDv7Bytes now2 g2 (Some ts) seq) = g2"
  using assms by (simp add: newUUIDv7Bytes_def pickTsSeq_def)

theorem newUUIDv7Bytes_supplied_deterministic_witness:
  "seed exampleGenState = seed (exampleGenState\<lparr>notBefore := 7, lastGenTS := 9, lastGenSeq := 3\<rparr>)
   \<and> snd (newUUIDv7Bytes 1 exampleGenState (Some 1700000000000) (Some 5))
     = snd (newUUIDv7Bytes 2 (exampleGenState\<lparr>notBefore := 7, lastGenTS := 9, lastGenSeq := 3\<rparr>)
            (Some 1700000000000) (Some 5))
   \<and> fst (newUUIDv7Bytes 1 exampleGenState (Some 1700000000000) (Some 5)) = exampleGenState"
  using newUUIDv7Bytes_supplied_deterministic
          [of exampleGenState "exampleGenState\<lparr>notBefore := 7, lastGenTS := 9, lastGenSeq := 3\<rparr>"
              1 1700000000000 "Some 5" 2]
  by simp

section \<open>Handling an action message\<close>

lemma strLess_irrefl: "\<not> strLess a a"
  by (induction a) simp_all

text \<open>The two paths of the handler after the filter has returned.\<close>

lemma processAction_accept:
  assumes "typeof actionData = ''object''"
    and "applyFilter options (filterContextOf k context clientContext) actionData = Inr fa"
    and "\<not> isFaultType (filteredTypeOf fa)"
    and "dispatch options (store context) fa = Inr st"
  shows "processAction options env k context clientContext actionId actionData =
           \<lparr>context' = context\<lparr>store := st\<rparr>, client' = clientContext,
            sent = (socket clientContext,
                    senderResponse (\<not> strictEq fa actionData) actionId
                      (chooseId (lastAction context) (nextId env) actionId) fa)
                   # fanOut context clientContext fa
                       (chooseId (lastAction context) (nextId env) actionId),
            thrown = None\<rparr>"
  using assms by (simp add: processAction_def Let_def)

lemma processAction_fault:
  assumes "typeof actionData = ''object''"
    and "applyFilter options (filterContextOf k context clientContext) actionData = Inr fa"
    and "isFaultType (filteredTypeOf fa)"
  shows "processAction options env k context clientContext actionId actionData =
           \<lparr>context' = context, client' = clientContext,
            sent = [(socket clientContext,
                     FaultResponse (respTypes (strOf (filteredTypeOf fa))) actionId
                       (nullish (optChain fa ''message'')
                          (JStr (''no extra message given for '' @ respTypes (strOf (filteredTypeOf fa))))))],
            thrown = None\<rparr>"
  using assms by (simp add: processAction_def Let_def)

text \<open>No message changes \<open>lastAction\<close>: the handler never assigns it.\<close>

lemma lastAction_kept:
  "lastAction (context' (processFromClient options env k context clientContext msg)) = lastAction context"
  by (cases msg)
     (auto simp: processAction_def processConnect_def Let_def split: sum.splits option.splits)

lemma non_object_dropped:
  "typeof actionData \<noteq> ''object'' \<Longrightarrow>
   processFromClient options env k context clientContext (Action actionId actionData) =
     \<lparr>context' = context, client' = clientContext, sent = [], thrown = None\<rparr>"
  by (auto simp: processAction_def)

text \<open>
  The verdict computed by the handler, \<open>filteredAction?.type ?? filteredAction\<close> compared
  with the three strings, is the verdict of the specification.
\<close>

lemma faultVerdict_filteredType:
  "faultVerdict fa = Some t \<Longrightarrow> filteredTypeOf fa = JStr t \<and> t \<in> set faultNames"
  by (cases fa)
     (auto simp: faultVerdict_def filteredTypeOf_def nullish_def optChain_def isNullish_def
           split: if_splits option.splits jsval.splits)

lemma faultVerdict_iff: "isFaultType (filteredTypeOf fa) \<longleftrightarrow> faultVerdict fa \<noteq> None"
  by (cases fa)
     (auto simp: faultVerdict_def filteredTypeOf_def nullish_def optChain_def isNullish_def
                 isFaultType_def faultNames_def
           split: if_splits option.splits jsval.splits)


text \<open>What the fan-out loop writes to the socket of one entry of the map.\<close>

lemma fanOut_to_socket:
  assumes "distinct (map fst xs)"
    and "list_all (\<lambda>(sock, c). socket c = sock) xs"
    and "(s, c) \<in> set xs"
  shows "filter (\<lambda>m. fst m = s)
           (map (\<lambda>(sock, iterClient). (socket iterClient, M)) (filter P xs))
         = (if P (s, c) then [(s, M)] else [])"
  using assms
proof (induction xs)
  case Nil
  then show ?case by simp
next
  case (Cons x xs)
  obtain s' c' where x: "x = (s', c')" by (cases x)
  from Cons.prems x have sc: "socket c' = s'" and d: "s' \<notin> fst ` set xs"
    and dist: "distinct (map fst xs)" and la: "list_all (\<lambda>(sock, c). socket c = sock) xs"
    by auto
  show ?case
  proof (cases "(s, c) = x")
    case True
    then have eq: "s' = s" "c' = c" using x by auto
    have none: "filter (\<lambda>m. fst m = s)
             (map (\<lambda>(sock, iterClient). (socket iterClient, M)) (filter P xs)) = []"
    proof -
      have "\<forall>e \<in> set xs. socket (snd e) \<noteq> s"
      proof
        fix e assume e: "e \<in> set xs"
        with la have "socket (snd e) = fst e" by (auto simp: list_all_iff)
        moreover from e d eq have "fst e \<noteq> s" by auto
        ultimately show "socket (snd e) \<noteq> s" by simp
      qed
      then show ?thesis by (auto simp: filter_empty_conv)
    qed
    show ?thesis using x eq sc none by simp
  next
    case False
    with Cons.prems have mem: "(s, c) \<in> set xs" by auto
    then have "s \<in> fst ` set xs" by force
    with d have "s' \<noteq> s" by auto
    with Cons.IH[OF dist la mem] x sc show ?thesis by simp
  qed
qed

text \<open>
  C4. For an accepted action (the payload passes the object guard, the filter returns a
  value that is no fault verdict, and the dispatch returns) from a sender that is live on
  the context: the sender's socket receives exactly one message, which is \<open>replaceAction\<close>
  when the filter's result is not the original payload, \<open>renameId\<close> when it is and the
  chosen id differs from the client's, and \<open>ackAction\<close> otherwise; and the socket of every
  client of the context whose \<open>autoClientId\<close> differs from the sender's receives exactly
  one message, the \<open>action\<close> message with the accepted action and the chosen id.
\<close>

theorem accepted_action_responses:
  assumes "typeof actionData = ''object''"
    and "applyFilter options (filterContextOf k context clientContext) actionData = Inr fa"
    and "faultVerdict fa = None"
    and "dispatch options (store context) fa = Inr st"
    and "liveOn context clientContext"
  shows "sentTo (socket clientContext)
           (processFromClient options env k context clientContext (Action actionId actionData))
         = [if \<not> strictEq fa actionData
              then ReplaceAction actionId (chooseId (lastAction context) (nextId env) actionId) fa
            else if chooseId (lastAction context) (nextId env) actionId \<noteq> actionId
              then RenameId actionId (chooseId (lastAction context) (nextId env) actionId)
            else AckAction actionId]
         \<and> list_all
             (\<lambda>(sock, c). autoClientId c \<noteq> autoClientId clientContext \<longrightarrow>
                sentTo sock
                  (processFromClient options env k context clientContext (Action actionId actionData))
                = [ActionMsg fa (chooseId (lastAction context) (nextId env) actionId)])
             (socketToClient context)"
proof -
  let ?id = "chooseId (lastAction context) (nextId env) actionId"
  let ?out = "processAction options env k context clientContext actionId actionData"
  let ?P = "\<lambda>(sock, iterClient). autoClientId iterClient \<noteq> autoClientId clientContext"
  from assms(3) have nf: "\<not> isFaultType (filteredTypeOf fa)" by (simp add: faultVerdict_iff)
  have out: "sent ?out = (socket clientContext,
                senderResponse (\<not> strictEq fa actionData) actionId ?id fa)
              # fanOut context clientContext fa ?id"
    using processAction_accept[OF assms(1) assms(2) nf assms(4)] by simp
  from assms(5) have dist: "distinct (map fst (socketToClient context))"
    and la: "list_all (\<lambda>(sock, c). socket c = sock) (socketToClient context)"
    and mem: "(socket clientContext, clientContext) \<in> set (socketToClient context)"
    by (simp_all add: liveOn_def)
  have fo: "\<And>s c. (s, c) \<in> set (socketToClient context) \<Longrightarrow>
              filter (\<lambda>m. fst m = s) (fanOut context clientContext fa ?id)
              = (if ?P (s, c) then [(s, ActionMsg fa ?id)] else [])"
    unfolding fanOut_def by (rule fanOut_to_socket[OF dist la])
  have sender: "sentTo (socket clientContext) ?out
                  = [senderResponse (\<not> strictEq fa actionData) actionId ?id fa]"
    using fo[OF mem] by (simp add: sentTo_def out)
  have others: "sentTo s ?out = [ActionMsg fa ?id]"
    if "(s, c) \<in> set (socketToClient context)" "autoClientId c \<noteq> autoClientId clientContext"
    for s c
  proof -
    have "s \<noteq> socket clientContext"
    proof
      assume "s = socket clientContext"
      with that(1) mem dist have "c = clientContext"
        by (metis eq_key_imp_eq_value)
      with that(2) show False by simp
    qed
    with fo[OF that(1)] that(2) show ?thesis by (simp add: sentTo_def out)
  qed
  show ?thesis
    using sender others by (auto simp: senderResponse_def list_all_iff)
qed


lemmas example_defs =
  optionsWith_def identityFilter_def strictFilter_def defaultingFilter_def asyncFilter_def
  faultFilter_def exampleEnv_def clientOn_def exampleSender_def exampleContext_def
  incAction_def exampleReducer_def

lemmas server_defs =
  processAction_def applyFilter_def filterContextOf_def filteredTypeOf_def dispatch_def
  chooseId_def respTypes_def isFaultType_def senderResponse_def fanOut_def
  nullish_def optChain_def isNullish_def sentTo_def

theorem accepted_action_responses_witness:
  "typeof incAction = ''object''
   \<and> applyFilter (optionsWith identityFilter)
         (filterContextOf ''room/a'' exampleContext exampleSender) incAction = Inr incAction
   \<and> faultVerdict incAction = None
   \<and> dispatch (optionsWith identityFilter) (store exampleContext) incAction
       = Inr (JObj 0 [(''count'', JNum 1)])
   \<and> liveOn exampleContext exampleSender
   \<and> sentTo 1 (processFromClient (optionsWith identityFilter) exampleEnv ''room/a''
                 exampleContext exampleSender
                 (Action ''018f0000-0000-7000-8000-000000000001'' incAction))
       = [AckAction ''018f0000-0000-7000-8000-000000000001'']
   \<and> sentTo 2 (processFromClient (optionsWith identityFilter) exampleEnv ''room/a''
                 exampleContext exampleSender
                 (Action ''018f0000-0000-7000-8000-000000000001'' incAction))
       = [ActionMsg incAction ''018f0000-0000-7000-8000-000000000001'']
   \<and> sentTo 3 (processFromClient (optionsWith identityFilter) exampleEnv ''room/a''
                 exampleContext exampleSender
                 (Action ''018f0000-0000-7000-8000-000000000001'' incAction))
       = [ActionMsg incAction ''018f0000-0000-7000-8000-000000000001'']"
proof -
  have h1: "typeof incAction = ''object''" by (simp add: incAction_def)
  have h2: "applyFilter (optionsWith identityFilter)
              (filterContextOf ''room/a'' exampleContext exampleSender) incAction = Inr incAction"
    by (simp add: applyFilter_def optionsWith_def identityFilter_def)
  have h3: "faultVerdict incAction = None"
    by (simp add: faultVerdict_def incAction_def faultNames_def)
  have h4: "dispatch (optionsWith identityFilter) (store exampleContext) incAction
              = Inr (JObj 0 [(''count'', JNum 1)])"
    by (simp add: dispatch_def example_defs isNullish_def)
  have h5: "liveOn exampleContext exampleSender"
    by (simp add: liveOn_def example_defs)
  have id: "chooseId (lastAction exampleContext) (nextId exampleEnv)
              ''018f0000-0000-7000-8000-000000000001'' = ''018f0000-0000-7000-8000-000000000001''"
    by (simp add: chooseId_def exampleContext_def exampleEnv_def)
  have eq: "strictEq incAction incAction" by (simp add: incAction_def)
  note th = accepted_action_responses[OF h1 h2 h3 h4 h5, of exampleEnv
              "''018f0000-0000-7000-8000-000000000001''"]
  have l: "socketToClient exampleContext =
             [(1, exampleSender),
              (2, clientOn 2 ''018e0000-0000-7000-8000-00000000000b''),
              (3, clientOn 3 ''018e0000-0000-7000-8000-00000000000c'')]"
    by (simp add: exampleContext_def)
  have s: "socket exampleSender = 1" by (simp add: exampleSender_def clientOn_def)
  have a2: "autoClientId (clientOn 2 ''018e0000-0000-7000-8000-00000000000b'')
              \<noteq> autoClientId exampleSender"
    and a3: "autoClientId (clientOn 3 ''018e0000-0000-7000-8000-00000000000c'')
              \<noteq> autoClientId exampleSender"
    by (simp_all add: exampleSender_def clientOn_def)
  from th show ?thesis
    unfolding id l s using h1 h2 h3 h4 h5 eq a2 a3 by simp
qed


text \<open>The response type and the message of the handler are those of the specification.\<close>

lemma respTypes_spec: "t \<in> set faultNames \<Longrightarrow> respTypes t = faultResponseType t"
  by (auto simp: respTypes_def faultResponseType_def faultNames_def)

lemma message_spec:
  "faultVerdict fa = Some t \<Longrightarrow>
   nullish (optChain fa ''message'') (JStr (''no extra message given for '' @ r)) = faultMessage fa r"
  by (cases fa)
     (auto simp: faultVerdict_def faultMessage_def nullish_def optChain_def isNullish_def
           split: option.splits if_splits)

text \<open>
  C6. When the filter's verdict is \<open>reject\<close>, \<open>needAuth\<close> or \<open>badAuth\<close>, as a string or
  as the \<open>type\<close> field of a fault object, the handler writes exactly one message, to the
  sender: the \<open>rejectAction\<close>, \<open>needAuthentication\<close> or \<open>badAuthorization\<close> response with
  the client's action id and with the fault object's \<open>message\<close> field, or the default
  text when there is none. The context (state, \<open>lastAction\<close>, clients) is unchanged and
  nothing is written to another client.
\<close>

theorem fault_verdict_response:
  assumes "typeof actionData = ''object''"
    and "applyFilter options (filterContextOf k context clientContext) actionData = Inr fa"
    and "faultVerdict fa = Some t"
  shows "processFromClient options env k context clientContext (Action actionId actionData) =
           \<lparr>context' = context, client' = clientContext,
            sent = [(socket clientContext,
                     FaultResponse (faultResponseType t) actionId
                       (faultMessage fa (faultResponseType t)))],
            thrown = None\<rparr>"
proof -
  from faultVerdict_filteredType[OF assms(3)]
  have ft: "filteredTypeOf fa = JStr t" and t: "t \<in> set faultNames" by simp_all
  from assms(3) have f: "isFaultType (filteredTypeOf fa)" by (simp add: faultVerdict_iff)
  show ?thesis
    using processAction_fault[OF assms(1) assms(2) f, of env actionId]
    unfolding ft strOf.simps respTypes_spec[OF t] message_spec[OF assms(3)]
    by simp
qed

theorem fault_verdict_response_witness:
  "typeof incAction = ''object''
   \<and> applyFilter (optionsWith faultFilter)
         (filterContextOf ''room/a'' exampleContext exampleSender) incAction
       = Inr (JObj 8 [(''type'', JStr ''needAuth''), (''message'', JStr ''log in first'')])
   \<and> faultVerdict (JObj 8 [(''type'', JStr ''needAuth''), (''message'', JStr ''log in first'')])
       = Some ''needAuth''
   \<and> processFromClient (optionsWith faultFilter) exampleEnv ''room/a'' exampleContext exampleSender
         (Action ''018f0000-0000-7000-8000-000000000001'' incAction)
       = \<lparr>context' = exampleContext, client' = exampleSender,
          sent = [(1, FaultResponse ''needAuthentication''
                        ''018f0000-0000-7000-8000-000000000001'' (JStr ''log in first''))],
          thrown = None\<rparr>
   \<and> typeof JNull = ''object''
   \<and> applyFilter (optionsWith strictFilter)
         (filterContextOf ''room/a'' exampleContext exampleSender) JNull = Inr (JStr ''reject'')
   \<and> faultVerdict (JStr ''reject'') = Some ''reject''
   \<and> processFromClient (optionsWith strictFilter) exampleEnv ''room/a'' exampleContext exampleSender
         (Action ''018f0000-0000-7000-8000-000000000001'' JNull)
       = \<lparr>context' = exampleContext, client' = exampleSender,
          sent = [(1, FaultResponse ''rejectAction''
                        ''018f0000-0000-7000-8000-000000000001''
                        (JStr ''no extra message given for rejectAction''))],
          thrown = None\<rparr>"
proof -
  let ?fo = "JObj 8 [(''type'', JStr ''needAuth''), (''message'', JStr ''log in first'')]"
  have h1: "typeof incAction = ''object''" by (simp add: incAction_def)
  have h2: "applyFilter (optionsWith faultFilter)
              (filterContextOf ''room/a'' exampleContext exampleSender) incAction = Inr ?fo"
    by (simp add: applyFilter_def optionsWith_def faultFilter_def)
  have h3: "faultVerdict ?fo = Some ''needAuth''"
    by (simp add: faultVerdict_def faultNames_def)
  have g1: "typeof JNull = ''object''" by simp
  have g2: "applyFilter (optionsWith strictFilter)
              (filterContextOf ''room/a'' exampleContext exampleSender) JNull = Inr (JStr ''reject'')"
    by (simp add: applyFilter_def optionsWith_def strictFilter_def optChain_def isNullish_def)
  have g3: "faultVerdict (JStr ''reject'') = Some ''reject''"
    by (simp add: faultVerdict_def faultNames_def)
  have s: "socket exampleSender = 1" by (simp add: exampleSender_def clientOn_def)
  note a = fault_verdict_response[OF h1 h2 h3, of exampleEnv "''018f0000-0000-7000-8000-000000000001''"]
  note b = fault_verdict_response[OF g1 g2 g3, of exampleEnv "''018f0000-0000-7000-8000-000000000001''"]
  from a b show ?thesis
    using h1 h2 h3 g2 g3 by (simp add: s faultResponseType_def faultMessage_def)
qed

text \<open>
  C10, as claimed: when the filter returns a promise, the promise is dispatched to the
  reducer, the sender receives a \<open>replaceAction\<close> and every other client the action. It
  fails on a store that checks its actions as redux does: the filter returns the
  promise, the dispatch of the promise throws, and nothing is written to any client; the
  state is as it was and the exception leaves the handler.
\<close>

theorem promise_rejected_by_store:
  "applyFilter (reduxOptionsWith asyncFilter)
     (filterContextOf ''room/a'' exampleContext exampleSender) incAction = Inr (JPromise 4)
   \<and> processFromClient (reduxOptionsWith asyncFilter) exampleEnv ''room/a'' exampleContext
       exampleSender (Action ''018f0000-0000-7000-8000-000000000001'' incAction)
     = \<lparr>context' = exampleContext, client' = exampleSender, sent = [],
        thrown = Some (Thrown ''Actions must be plain objects'')\<rparr>"
  by (simp add: reduxOptionsWith_def reduxStore_def isPlainObject_def example_defs server_defs
        Let_def)

text \<open>
  C10, amended. When the filter returns a promise, the handler neither awaits it nor
  answers with a fault: the promise is no fault verdict and it is the value handed to
  the store's dispatch. When that dispatch throws, nothing is written to any client, the
  context is unchanged and the exception leaves the handler; when it returns, the sender
  receives a \<open>replaceAction\<close> that carries the promise and every other client an \<open>action\<close>
  message that carries it. The payload of the message is not that promise, as it came
  off the wire.
\<close>

theorem promise_handed_to_dispatch:
  assumes "typeof actionData = ''object''"
    and "actionData \<noteq> JPromise p"
    and "applyFilter options (filterContextOf k context clientContext) actionData = Inr (JPromise p)"
  shows "processFromClient options env k context clientContext (Action actionId actionData) =
           (case dispatch options (store context) (JPromise p) of
              Inl e \<Rightarrow>
                \<lparr>context' = context, client' = clientContext, sent = [], thrown = Some e\<rparr>
            | Inr st \<Rightarrow>
                \<lparr>context' = context\<lparr>store := st\<rparr>, client' = clientContext,
                 sent = (socket clientContext,
                         ReplaceAction actionId
                           (chooseId (lastAction context) (nextId env) actionId) (JPromise p))
                        # map (\<lambda>(sock, iterClient).
                                 (socket iterClient,
                                  ActionMsg (JPromise p)
                                    (chooseId (lastAction context) (nextId env) actionId)))
                            (filter (\<lambda>(sock, iterClient).
                                       autoClientId iterClient \<noteq> autoClientId clientContext)
                                    (socketToClient context)),
                 thrown = None\<rparr>)"
proof -
  have nf: "\<not> isFaultType (filteredTypeOf (JPromise p))"
    by (simp add: filteredTypeOf_def nullish_def optChain_def isNullish_def isFaultType_def)
  have ne: "\<not> strictEq (JPromise p) actionData"
    using assms(2) by (cases actionData) auto
  show ?thesis
  proof (cases "dispatch options (store context) (JPromise p)")
    case (Inl e)
    then show ?thesis
      using assms(1) assms(3) nf by (simp add: processAction_def Let_def)
  next
    case (Inr st)
    then show ?thesis
      using processAction_accept[OF assms(1) assms(3) nf Inr, of env actionId] ne
      by (simp add: senderResponse_def fanOut_def)
  qed
qed

theorem promise_handed_to_dispatch_witness:
  "typeof incAction = ''object''
   \<and> incAction \<noteq> JPromise 4
   \<and> applyFilter (reduxOptionsWith asyncFilter)
        (filterContextOf ''room/a'' exampleContext exampleSender) incAction = Inr (JPromise 4)
   \<and> dispatch (reduxOptionsWith asyncFilter) (store exampleContext) (JPromise 4)
       = Inl (Thrown ''Actions must be plain objects'')
   \<and> processFromClient (reduxOptionsWith asyncFilter) exampleEnv ''room/a'' exampleContext
         exampleSender (Action ''018f0000-0000-7000-8000-000000000001'' incAction)
       = \<lparr>context' = exampleContext, client' = exampleSender, sent = [],
          thrown = Some (Thrown ''Actions must be plain objects'')\<rparr>
   \<and> applyFilter (optionsWith asyncFilter)
        (filterContextOf ''room/a'' exampleContext exampleSender) incAction = Inr (JPromise 4)
   \<and> dispatch (optionsWith asyncFilter) (store exampleContext) (JPromise 4)
       = Inr (JObj 0 [(''count'', JNum 0)])
   \<and> processFromClient (optionsWith asyncFilter) exampleEnv ''room/a'' exampleContext exampleSender
         (Action ''018f0000-0000-7000-8000-000000000001'' incAction)
       = \<lparr>context' = exampleContext, client' = exampleSender,
          sent = [(1, ReplaceAction ''018f0000-0000-7000-8000-000000000001''
                        ''018f0000-0000-7000-8000-000000000001'' (JPromise 4)),
                  (2, ActionMsg (JPromise 4) ''018f0000-0000-7000-8000-000000000001''),
                  (3, ActionMsg (JPromise 4) ''018f0000-0000-7000-8000-000000000001'')],
          thrown = None\<rparr>"
proof -
  have h1: "typeof incAction = ''object''" by (simp add: incAction_def)
  have h2: "incAction \<noteq> JPromise 4" by (simp add: incAction_def)
  have h3: "applyFilter (optionsWith asyncFilter)
              (filterContextOf ''room/a'' exampleContext exampleSender) incAction = Inr (JPromise 4)"
    by (simp add: applyFilter_def optionsWith_def asyncFilter_def)
  have h4: "dispatch (optionsWith asyncFilter) (store exampleContext) (JPromise 4)
              = Inr (JObj 0 [(''count'', JNum 0)])"
    by (simp add: dispatch_def example_defs isNullish_def)
  have g3: "applyFilter (reduxOptionsWith asyncFilter)
              (filterContextOf ''room/a'' exampleContext exampleSender) incAction = Inr (JPromise 4)"
    by (simp add: applyFilter_def reduxOptionsWith_def asyncFilter_def)
  have g4: "dispatch (reduxOptionsWith asyncFilter) (store exampleContext) (JPromise 4)
              = Inl (Thrown ''Actions must be plain objects'')"
    by (simp add: dispatch_def reduxOptionsWith_def reduxStore_def isPlainObject_def)
  have id: "chooseId (lastAction exampleContext) (nextId exampleEnv)
              ''018f0000-0000-7000-8000-000000000001'' = ''018f0000-0000-7000-8000-000000000001''"
    by (simp add: chooseId_def exampleContext_def exampleEnv_def)
  have st: "exampleContext\<lparr>store := JObj 0 [(''count'', JNum 0)]\<rparr> = exampleContext"
    by (simp add: exampleContext_def)
  have fo: "map (\<lambda>(sock, iterClient). (socket iterClient, M))
              (filter (\<lambda>(sock, iterClient). autoClientId iterClient \<noteq> autoClientId exampleSender)
                 (socketToClient exampleContext)) = [(2, M), (3, M)]" for M :: ServerToClientMessage
    by (simp add: exampleContext_def exampleSender_def clientOn_def)
  have s: "socket exampleSender = 1" by (simp add: exampleSender_def clientOn_def)
  note a = promise_handed_to_dispatch[OF h1 h2 g3, of exampleEnv
             "''018f0000-0000-7000-8000-000000000001''"]
  note b = promise_handed_to_dispatch[OF h1 h2 h3, of exampleEnv
             "''018f0000-0000-7000-8000-000000000001''"]
  from a b show ?thesis
    unfolding g4 h4 id fo s using h1 h2 h3 g3 by (simp add: st)
qed

section \<open>The id policy\<close>

text \<open>
  C5, as claimed: the chosen id is \<open>next\<close> exactly when the client's id is below
  \<open>lastAction\<close>, equal to it, or above \<open>next\<close>. It fails for an id equal to \<open>lastAction\<close>:
  the handler keeps the client's id, acknowledges it to the sender and fans it out.
\<close>

theorem equal_id_not_replaced:
  "\<not> (chooseId ''018e0000-0000-7000-8000-000000000000'' ''018f0000-0001-7000-8000-0000000000aa''
          ''018e0000-0000-7000-8000-000000000000'' = ''018f0000-0001-7000-8000-0000000000aa''
        \<longleftrightarrow>
        (strLess ''018e0000-0000-7000-8000-000000000000'' ''018e0000-0000-7000-8000-000000000000''
         \<or> ''018e0000-0000-7000-8000-000000000000'' = ''018e0000-0000-7000-8000-000000000000''
         \<or> strLess ''018f0000-0001-7000-8000-0000000000aa'' ''018e0000-0000-7000-8000-000000000000''))
   \<and> sent (processFromClient (optionsWith identityFilter) exampleEnv ''room/a'' exampleContext
              exampleSender (Action (lastAction exampleContext) incAction))
       = [(1, AckAction ''018e0000-0000-7000-8000-000000000000''),
          (2, ActionMsg incAction ''018e0000-0000-7000-8000-000000000000''),
          (3, ActionMsg incAction ''018e0000-0000-7000-8000-000000000000'')]"
  by (simp add: example_defs server_defs Let_def)

text \<open>
  C5, amended. The chosen id is \<open>next\<close> when the client's id is strictly below
  \<open>lastAction\<close> or strictly above \<open>next\<close> in the order of JavaScript strings, and it is
  the client's id otherwise; an id equal to \<open>lastAction\<close> that is not above \<open>next\<close> is
  kept. (\<open>chooseId\<close> is the \<open>id\<close> of the handler: by \<open>processAction_accept\<close> it is the
  id in the sender's response and in the fan-out.)
\<close>

theorem id_policy_strict:
  "(strLess actionId lastAct \<or> strLess next actionId \<longrightarrow> chooseId lastAct next actionId = next)
   \<and> (\<not> strLess actionId lastAct \<and> \<not> strLess next actionId
        \<longrightarrow> chooseId lastAct next actionId = actionId)
   \<and> (\<not> strLess next lastAct \<longrightarrow> chooseId lastAct next lastAct = lastAct)"
  by (simp add: chooseId_def strLess_irrefl)

theorem id_policy_strict_witness:
  "strLess ''00000000-0000-7000-8000-000000000000'' ''018e0000-0000-7000-8000-000000000000''
   \<and> chooseId ''018e0000-0000-7000-8000-000000000000'' ''018f0000-0001-7000-8000-0000000000aa''
        ''00000000-0000-7000-8000-000000000000'' = ''018f0000-0001-7000-8000-0000000000aa''
   \<and> strLess ''018f0000-0001-7000-8000-0000000000aa'' ''02000000-0000-7000-8000-000000000000''
   \<and> chooseId ''018e0000-0000-7000-8000-000000000000'' ''018f0000-0001-7000-8000-0000000000aa''
        ''02000000-0000-7000-8000-000000000000'' = ''018f0000-0001-7000-8000-0000000000aa''
   \<and> \<not> strLess ''018f0000-0000-7000-8000-000000000001'' ''018e0000-0000-7000-8000-000000000000''
   \<and> \<not> strLess ''018f0000-0001-7000-8000-0000000000aa'' ''018f0000-0000-7000-8000-000000000001''
   \<and> chooseId ''018e0000-0000-7000-8000-000000000000'' ''018f0000-0001-7000-8000-0000000000aa''
        ''018f0000-0000-7000-8000-000000000001'' = ''018f0000-0000-7000-8000-000000000001''
   \<and> \<not> strLess ''018f0000-0001-7000-8000-0000000000aa'' ''018e0000-0000-7000-8000-000000000000''
   \<and> chooseId ''018e0000-0000-7000-8000-000000000000'' ''018f0000-0001-7000-8000-0000000000aa''
        ''018e0000-0000-7000-8000-000000000000'' = ''018e0000-0000-7000-8000-000000000000''"
proof -
  have a: "strLess ''00000000-0000-7000-8000-000000000000'' ''018e0000-0000-7000-8000-000000000000''"
    by simp
  have b: "strLess ''018f0000-0001-7000-8000-0000000000aa'' ''02000000-0000-7000-8000-000000000000''"
    by simp
  have c: "\<not> strLess ''018f0000-0000-7000-8000-000000000001'' ''018e0000-0000-7000-8000-000000000000''"
    "\<not> strLess ''018f0000-0001-7000-8000-0000000000aa'' ''018f0000-0000-7000-8000-000000000001''"
    by simp_all
  have d: "\<not> strLess ''018f0000-0001-7000-8000-0000000000aa'' ''018e0000-0000-7000-8000-000000000000''"
    by simp
  from id_policy_strict[of "''00000000-0000-7000-8000-000000000000''"
         "''018e0000-0000-7000-8000-000000000000''" "''018f0000-0001-7000-8000-0000000000aa''"]
       id_policy_strict[of "''02000000-0000-7000-8000-000000000000''"
         "''018e0000-0000-7000-8000-000000000000''" "''018f0000-0001-7000-8000-0000000000aa''"]
       id_policy_strict[of "''018f0000-0000-7000-8000-000000000001''"
         "''018e0000-0000-7000-8000-000000000000''" "''018f0000-0001-7000-8000-0000000000aa''"]
       a b c d
  show ?thesis by blast
qed

section \<open>\<open>lastAction\<close> after an accepted action\<close>

text \<open>
  C1. The claim: after an accepted action the state is the reducer's result and
  \<open>lastAction\<close> is the chosen id. The code, in scenario S1 of the specification (identity
  filter, counting reducer, the client's id \<open>018f0000-0000-7000-8000-000000000001\<close>
  between \<open>lastAction\<close> and \<open>next\<close>): the action is accepted under the client's id and
  acknowledged, the count goes from 0 to 1, and \<open>lastAction\<close> still is the id minted
  when the context was created, not the chosen id. By \<open>lastAction_kept\<close> no message ever
  changes it.
\<close>

theorem lastAction_not_updated:
  "sent (processFromClient (optionsWith identityFilter) exampleEnv ''room/a'' exampleContext
           exampleSender (Action ''018f0000-0000-7000-8000-000000000001'' incAction))
     = [(1, AckAction ''018f0000-0000-7000-8000-000000000001''),
        (2, ActionMsg incAction ''018f0000-0000-7000-8000-000000000001''),
        (3, ActionMsg incAction ''018f0000-0000-7000-8000-000000000001'')]
   \<and> store (context' (processFromClient (optionsWith identityFilter) exampleEnv ''room/a''
                         exampleContext exampleSender
                         (Action ''018f0000-0000-7000-8000-000000000001'' incAction)))
     = JObj 0 [(''count'', JNum 1)]
   \<and> lastAction (context' (processFromClient (optionsWith identityFilter) exampleEnv ''room/a''
                         exampleContext exampleSender
                         (Action ''018f0000-0000-7000-8000-000000000001'' incAction)))
     = ''018e0000-0000-7000-8000-000000000000''
   \<and> lastAction (context' (processFromClient (optionsWith identityFilter) exampleEnv ''room/a''
                         exampleContext exampleSender
                         (Action ''018f0000-0000-7000-8000-000000000001'' incAction)))
     \<noteq> ''018f0000-0000-7000-8000-000000000001''"
  by (simp add: example_defs server_defs Let_def)

section \<open>The object guard\<close>

text \<open>
  C8. The claim: a payload that is no structured object, \<open>null\<close> included, changes
  nothing and is answered with nothing. The code: \<open>typeof null\<close> is \<open>"object"\<close>, so
  \<open>null\<close> passes the guard and reaches the filter. With a filter that rejects what is
  not an \<open>inc\<close> action the sender receives a \<open>rejectAction\<close>; with a filter that puts a
  default action in the place of an empty payload the state changes, the sender receives
  a \<open>replaceAction\<close> and the other clients the action. (By \<open>non_object_dropped\<close> every
  payload whose \<open>typeof\<close> is not \<open>"object"\<close> is dropped.)
\<close>

theorem null_payload_not_dropped:
  "processFromClient (optionsWith strictFilter) exampleEnv ''room/a'' exampleContext exampleSender
     (Action ''018f0000-0000-7000-8000-000000000001'' JNull)
     = \<lparr>context' = exampleContext, client' = exampleSender,
        sent = [(1, FaultResponse ''rejectAction'' ''018f0000-0000-7000-8000-000000000001''
                      (JStr ''no extra message given for rejectAction''))],
        thrown = None\<rparr>
   \<and> processFromClient (optionsWith defaultingFilter) exampleEnv ''room/a'' exampleContext
       exampleSender (Action ''018f0000-0000-7000-8000-000000000001'' JNull)
     = \<lparr>context' = exampleContext\<lparr>store := JObj 0 [(''count'', JNum 1)]\<rparr>,
        client' = exampleSender,
        sent = [(1, ReplaceAction ''018f0000-0000-7000-8000-000000000001''
                      ''018f0000-0000-7000-8000-000000000001'' (JObj 9 [(''type'', JStr ''inc'')])),
                (2, ActionMsg (JObj 9 [(''type'', JStr ''inc'')])
                      ''018f0000-0000-7000-8000-000000000001''),
                (3, ActionMsg (JObj 9 [(''type'', JStr ''inc'')])
                      ''018f0000-0000-7000-8000-000000000001'')],
        thrown = None\<rparr>"
  by (simp add: example_defs server_defs Let_def)

section \<open>\<open>createContext\<close> when \<open>hydrate\<close> returns \<open>null\<close>\<close>

text \<open>
  C7. The claim: when \<open>hydrate\<close> returns \<open>null\<close> the pending promise of the key is
  resolved with \<open>null\<close>, the key leaves \<open>pendings\<close>, nothing is stored for it, and a later
  call hydrates again. The code, for two callers on the cold key \<open>room/ghost\<close>: the first
  installs promise 0 and calls \<open>hydrate\<close>, the second awaits promise 0; \<open>hydrate\<close>
  returns \<open>null\<close>; the first call returns \<open>null\<close> and removes the key from \<open>pendings\<close>,
  no context is stored, and a third call hydrates again; but promise 0 is still pending:
  \<open>return null\<close> leaves the \<open>try\<close> block without a call of \<open>resolvePending\<close>, so the
  second caller never goes on.
\<close>

theorem nil_hydrate_leaves_promise_pending:
  "(let (r1, s1) = createContext_begin ''room/ghost'' emptyRegistry;
        (r2, s2) = createContext_begin ''room/ghost'' r1;
        (r3, ret) = createContext_resume ''room/ghost'' ''018e0000-0000-7000-8000-000000000000'' 0
                      (HydrateReturned JNull) r2
    in s1 = AwaitHydrate 0 \<and> s2 = AwaitPending 0 \<and> ret = None
       \<and> awaited r3 0 = Pending \<and> awaited r3 0 \<noteq> Fulfilled None
       \<and> pendings r3 ''room/ghost'' = None \<and> contexts r3 ''room/ghost'' = None
       \<and> snd (createContext_begin ''room/ghost'' r3) = AwaitHydrate 1)"
  by (simp add: createContext_begin_def createContext_resume_def emptyRegistry_def awaited_def
        falsy_def)

end
